theory Spec2Isabelle
  imports Complex_Main
begin

section \<open>The chat-completion bridge of \<open>bridge_server.py\<close>\<close>

text \<open>
  The bridge takes an OpenAI-style chat-completion request, opens a websocket session to
  the agent runtime, sends the user's message and turns the agent's messages into
  chat-completion chunks. The model below follows \<open>bridge_server.py\<close> line by line.
  What lies outside that file (the websocket, \<open>json.loads\<close>, the clock, the
  interpreter's \<open>str()\<close>) is a record of answers, \<open>runtime\<close>, that the
  generator consults. The calls of \<open>print\<close> are left out; the exception that the
  outer handler prints is kept in the record of the run.
\<close>

subsection \<open>Decoded JSON values and Python's operations on them\<close>

text \<open>
  \<open>json.loads\<close> returns \<open>None\<close>, a \<open>bool\<close>, an \<open>int\<close>, a \<open>float\<close>
  (the literals \<open>NaN\<close>, \<open>Infinity\<close> and \<open>-Infinity\<close> are accepted), a \<open>str\<close>,
  a \<open>list\<close> or a \<open>dict\<close>. A \<open>dict\<close> is an association list read with
  \<open>map_of\<close>. The dictionaries that the bridge builds itself are written as the
  source writes them.
\<close>

datatype pyfloat = Finite real | PosInf | NegInf | NaN

datatype json =
    JNull
  | JBool bool
  | JInt int
  | JFloat pyfloat
  | JStr string
  | JArr "json list"
  | JObj "(string \<times> json) list"

text \<open>The exceptions that occur; every one of them is a subclass of \<open>Exception\<close>.\<close>

datatype exn =
    TimeoutError
  | ConnectionClosed
  | JSONDecodeError
  | KeyError
  | TypeError
  | OSError

text \<open>Truth value of an object, as \<open>if content_chunk:\<close> tests it.\<close>

fun truthy :: "json \<Rightarrow> bool" where
  "truthy JNull = False"
| "truthy (JBool b) = b"
| "truthy (JInt i) = (i \<noteq> 0)"
| "truthy (JFloat f) = (f \<noteq> Finite 0)"
| "truthy (JStr s) = (s \<noteq> [])"
| "truthy (JArr xs) = (xs \<noteq> [])"
| "truthy (JObj kvs) = (kvs \<noteq> [])"

text \<open>\<open>k in s\<close> for two strings: \<open>k\<close> occurs in \<open>s\<close> as a contiguous run.\<close>

fun occurs_in :: "string \<Rightarrow> string \<Rightarrow> bool" where
  "occurs_in k [] = (k = [])"
| "occurs_in k (c # s) = (take (length k) (c # s) = k \<or> occurs_in k s)"

text \<open>
  \<open>key in message\<close> with a \<open>str\<close> key: membership among the keys of a \<open>dict\<close>,
  among the elements of a \<open>list\<close>, as a substring of a \<open>str\<close>; any other
  object is not iterable.
\<close>

fun py_contains :: "string \<Rightarrow> json \<Rightarrow> exn + bool" where
  "py_contains k (JObj kvs) = Inr (map_of kvs k \<noteq> None)"
| "py_contains k (JArr xs) = Inr (JStr k \<in> set xs)"
| "py_contains k (JStr s) = Inr (occurs_in k s)"
| "py_contains k _ = Inl TypeError"

text \<open>
  \<open>message[key]\<close> with a \<open>str\<close> key: a \<open>dict\<close> raises \<open>KeyError\<close> for a
  missing key; a \<open>list\<close> and a \<open>str\<close> take integer indices only and the other
  objects are not subscriptable.
\<close>

fun py_getitem :: "json \<Rightarrow> string \<Rightarrow> exn + json" where
  "py_getitem (JObj kvs) k = (case map_of kvs k of None \<Rightarrow> Inl KeyError | Some v \<Rightarrow> Inr v)"
| "py_getitem _ k = Inl TypeError"

subsection \<open>The request\<close>

record ChatMessage =
  role :: string
  content :: string

record ChatCompletionRequest =
  model :: string
  messages :: "ChatMessage list"
  stream :: bool

subsection \<open>The world outside the source file\<close>

text \<open>
  What \<open>websocket.recv()\<close> delivers is text; \<open>json.loads\<close> either rejects it or
  decodes it to a value.
\<close>

datatype frame_text = NotJson | JsonText json

datatype recv_result = Raises exn | Returns frame_text

text \<open>
  \<open>connect_raises\<close> and \<open>send_raises\<close> say whether \<open>websockets.connect\<close> and
  \<open>websocket.send\<close> fail. \<open>recv rt n\<close> is what the \<open>n\<close>-th call of
  \<open>websocket.recv()\<close> does and after how many seconds. \<open>time_now rt k\<close> is the
  \<open>k\<close>-th reading of \<open>int(time.time())\<close>. \<open>py_str\<close> is \<open>str()\<close> of a
  decoded value that is not a \<open>str\<close> (the interpreter's rendering of numbers, lists
  and dictionaries). Cancellation of the task is not part of the model.
\<close>

record runtime =
  connect_raises :: "exn option"
  send_raises :: "exn option"
  recv :: "nat \<Rightarrow> real \<times> recv_result"
  time_now :: "nat \<Rightarrow> int"
  py_str :: "json \<Rightarrow> string"

text \<open>\<open>asyncio.wait_for(aw, timeout)\<close>: the result of \<open>aw\<close> if it comes in time.\<close>

definition wait_for :: "real \<times> recv_result \<Rightarrow> real \<Rightarrow> recv_result" where
  "wait_for aw timeout = (if fst aw < timeout then snd aw else Raises TimeoutError)"

definition json_loads :: "frame_text \<Rightarrow> exn + json" where
  "json_loads t = (case t of NotJson \<Rightarrow> Inl JSONDecodeError | JsonText v \<Rightarrow> Inr v)"

text \<open>A replacement field of an f-string: a \<open>str\<close> is inserted as it is.\<close>

definition py_format :: "runtime \<Rightarrow> json \<Rightarrow> string" where
  "py_format rt v = (case v of JStr s \<Rightarrow> s | _ \<Rightarrow> py_str rt v)"

subsection \<open>\<open>stream_agent_responses\<close>\<close>

text \<open>Lines 33 to 37: the loop over \<open>request.messages\<close> with its \<open>break\<close>.\<close>

fun user_message :: "ChatMessage list \<Rightarrow> string" where
  "user_message [] = []"
| "user_message (message # rest) =
     (if role message = ''user'' then content message else user_message rest)"

definition uri :: string where
  "uri = ''ws://localhost:3000/ws?conversation_id='' @ ''test-conversation''"

definition message_action :: "string \<Rightarrow> json" where
  "message_action um =
     JObj [(''action'', JStr ''MessageAction''),
           (''args'', JObj [(''content'', JStr um), (''source'', JStr ''user'')])]"

definition envelope :: "string \<Rightarrow> json" where
  "envelope um = JObj [(''action'', JStr ''oh_user_action''), (''data'', message_action um)]"

text \<open>
  The condition \<open>key in message and message[key] == kind\<close>; \<open>and\<close> does not
  evaluate its right operand when the left one is false, and a \<open>str\<close> equals a
  \<open>str\<close> only.
\<close>

definition tagged :: "json \<Rightarrow> string \<Rightarrow> string \<Rightarrow> exn + bool" where
  "tagged message key kind =
     (case py_contains key message of
        Inl e \<Rightarrow> Inl e
      | Inr False \<Rightarrow> Inr False
      | Inr True \<Rightarrow>
          (case py_getitem message key of
             Inl e \<Rightarrow> Inl e
           | Inr v \<Rightarrow> Inr (v = JStr kind)))"

definition running_command :: "string \<Rightarrow> string" where
  "running_command c =
     ''\<newline>\<newline>Running command:\<newline>```bash\<newline>'' @ c @ ''\<newline>```\<newline>\<newline>''"

text \<open>Lines 61 to 65: the value of \<open>content_chunk\<close> for a decoded message.\<close>

definition content_chunk :: "runtime \<Rightarrow> json \<Rightarrow> exn + json" where
  "content_chunk rt message =
     (case tagged message ''observation'' ''AgentThinkObservation'' of
        Inl e \<Rightarrow> Inl e
      | Inr True \<Rightarrow> py_getitem message ''content''
      | Inr False \<Rightarrow>
          (case tagged message ''action'' ''CmdRunAction'' of
             Inl e \<Rightarrow> Inl e
           | Inr True \<Rightarrow>
               (case py_getitem message ''args'' of
                  Inl e \<Rightarrow> Inl e
                | Inr args \<Rightarrow>
                    (case py_getitem args ''command'' of
                       Inl e \<Rightarrow> Inl e
                     | Inr c \<Rightarrow> Inr (JStr (running_command (py_format rt c)))))
           | Inr False \<Rightarrow> Inr (JStr [])))"

text \<open>Lines 68 to 80 and 93 to 105: the two dictionaries.\<close>

definition chunk :: "int \<Rightarrow> string \<Rightarrow> json \<Rightarrow> json" where
  "chunk t mdl c =
     JObj [(''id'', JStr ''chatcmpl-123''),
           (''object'', JStr ''chat.completion.chunk''),
           (''created'', JInt t),
           (''model'', JStr mdl),
           (''choices'',
              JArr [JObj [(''index'', JInt 0),
                          (''delta'', JObj [(''content'', c)]),
                          (''finish_reason'', JNull)]])]"

definition done_chunk :: "int \<Rightarrow> string \<Rightarrow> json" where
  "done_chunk t mdl =
     JObj [(''id'', JStr ''chatcmpl-123''),
           (''object'', JStr ''chat.completion.chunk''),
           (''created'', JInt t),
           (''model'', JStr mdl),
           (''choices'',
              JArr [JObj [(''index'', JInt 0),
                          (''delta'', JObj []),
                          (''finish_reason'', JStr ''stop'')]])]"

text \<open>Lines 59 to 65: \<open>json.loads\<close> and the two tests.\<close>

definition translate :: "runtime \<Rightarrow> frame_text \<Rightarrow> exn + json" where
  "translate rt message_str =
     (case json_loads message_str of
        Inl e \<Rightarrow> Inl e
      | Inr message \<Rightarrow> content_chunk rt message)"

text \<open>
  Lines 58 to 65, the body of the inner \<open>try\<close> up to the value of
  \<open>content_chunk\<close>: the \<open>n\<close>-th \<open>recv\<close> under its timeout of 20 seconds,
  then the translation.
\<close>

definition receive :: "runtime \<Rightarrow> nat \<Rightarrow> exn + json" where
  "receive rt n =
     (case wait_for (recv rt n) 20 of
        Raises e \<Rightarrow> Inl e
      | Returns message_str \<Rightarrow> translate rt message_str)"

text \<open>Lines 67 to 81: the chunk is yielded when \<open>content_chunk\<close> is true.\<close>

definition yield_chunk :: "runtime \<Rightarrow> string \<Rightarrow> json list \<Rightarrow> json \<Rightarrow> json list" where
  "yield_chunk rt mdl out c =
     (if truthy c then out @ [chunk (time_now rt (length out)) mdl c] else out)"

text \<open>
  Lines 58 to 81, the body of the inner \<open>try\<close>, run once. \<open>out\<close> holds the
  chunks yielded so far (each chunk reads the clock once, so \<open>length out\<close>
  readings were made) and \<open>n\<close> counts the calls of \<open>recv\<close>. The result is the
  exception raised, or the chunks yielded after this pass.
\<close>

definition iteration :: "runtime \<Rightarrow> string \<Rightarrow> nat \<Rightarrow> json list \<Rightarrow> exn + json list" where
  "iteration rt mdl n out =
     (case receive rt n of
        Inl e \<Rightarrow> Inl e
      | Inr c \<Rightarrow> Inr (yield_chunk rt mdl out c))"

text \<open>
  Lines 56 to 88, \<open>while True\<close>. The two \<open>except\<close> clauses of the inner
  \<open>try\<close> leave the loop; any other exception leaves it too and travels on to the
  outer \<open>try\<close>. The result is the chunks, the number of \<open>recv\<close> calls made and
  the exception that travels on, if any. A loop that never ends has no result.
\<close>

partial_function (option) receive_loop ::
  "runtime \<Rightarrow> string \<Rightarrow> nat \<Rightarrow> json list \<Rightarrow> (json list \<times> nat \<times> exn option) option" where
  "receive_loop rt mdl n out =
     (case iteration rt mdl n out of
        Inl e \<Rightarrow>
          (if e = TimeoutError then Some (out, Suc n, None)
           else if e = ConnectionClosed then Some (out, Suc n, None)
           else Some (out, Suc n, Some e))
      | Inr out' \<Rightarrow> receive_loop rt mdl (Suc n) out')"

text \<open>
  The first \<open>k\<close> passes through the loop, whether or not it ever ends: the chunks
  that a client has been sent after them, or the exception with which one of them left
  the loop.
\<close>

fun iterations :: "runtime \<Rightarrow> string \<Rightarrow> nat \<Rightarrow> exn + json list" where
  "iterations rt mdl 0 = Inr []"
| "iterations rt mdl (Suc k) =
     (case iterations rt mdl k of
        Inl e \<Rightarrow> Inl e
      | Inr out \<Rightarrow> iteration rt mdl k out)"

text \<open>
  What one run of the generator did: the chunks it yielded (each one goes out as
  \<open>data: \<close>, \<open>json.dumps\<close> of the chunk and a blank line), the calls on the
  session channel, the number of \<open>recv\<close> calls, and the exception that the outer
  \<open>except Exception\<close> caught and printed.
\<close>

datatype channel_op = Connect string | Send json | Close

record run =
  yielded :: "json list"
  channel :: "channel_op list"
  recv_calls :: nat
  caught :: "exn option"

text \<open>Lines 92 to 106 follow the outer \<open>try\<close> on every path.\<close>

definition finish :: "runtime \<Rightarrow> ChatCompletionRequest \<Rightarrow> json list \<Rightarrow> channel_op list \<Rightarrow> nat \<Rightarrow> exn option \<Rightarrow> run" where
  "finish rt request out ops n e =
     \<lparr>yielded = out @ [done_chunk (time_now rt (length out)) (model request)],
      channel = ops, recv_calls = n, caught = e\<rparr>"

text \<open>
  Lines 45 to 54: the connection is opened and the envelope is sent. The result is the
  calls made on the channel and the exception raised, if any.
\<close>

definition open_session :: "runtime \<Rightarrow> string \<Rightarrow> channel_op list \<times> exn option" where
  "open_session rt um =
     (case connect_raises rt of
        Some e \<Rightarrow> ([Connect uri], Some e)
      | None \<Rightarrow> ([Connect uri, Send (envelope um)], send_raises rt))"

text \<open>Leaving \<open>async with\<close> closes a connection that was opened.\<close>

definition leave :: "runtime \<Rightarrow> channel_op list \<Rightarrow> channel_op list" where
  "leave rt ops = (if connect_raises rt = None then ops @ [Close] else ops)"

definition stream_agent_responses :: "runtime \<Rightarrow> ChatCompletionRequest \<Rightarrow> run option" where
  "stream_agent_responses rt request =
     (case open_session rt (user_message (messages request)) of
        (ops, Some e) \<Rightarrow> Some (finish rt request [] (leave rt ops) 0 (Some e))
      | (ops, None) \<Rightarrow>
          (case receive_loop rt (model request) 0 [] of
             None \<Rightarrow> None
           | Some (out, n, e) \<Rightarrow> Some (finish rt request out (leave rt ops) n e)))"

subsection \<open>\<open>chat_completions\<close>\<close>

datatype response =
    StreamingResponse "json list" string
  | JsonBody json

text \<open>
  Lines 110 to 116. The streaming response carries the generator's chunks; the run
  record says what the generator did on the way.
\<close>

definition chat_completions :: "runtime \<Rightarrow> ChatCompletionRequest \<Rightarrow> (response \<times> channel_op list) option" where
  "chat_completions rt request =
     (if stream request then
        (case stream_agent_responses rt request of
           None \<Rightarrow> None
         | Some r \<Rightarrow> Some (StreamingResponse (yielded r) ''text/event-stream'', channel r))
      else Some (JsonBody (JObj [(''error'', JStr ''Non-streaming not implemented yet'')]), []))"

subsection \<open>Reading a chunk\<close>

text \<open>
  What a client reads in a chunk: \<open>choices[0].delta\<close>,
  \<open>choices[0].delta.content\<close> and \<open>choices[0].finish_reason\<close>.
\<close>

fun field :: "string \<Rightarrow> json \<Rightarrow> json option" where
  "field k (JObj kvs) = map_of kvs k"
| "field k _ = None"

fun first_choice :: "json \<Rightarrow> json option" where
  "first_choice (JObj kvs) =
     (case map_of kvs ''choices'' of Some (JArr (c # cs)) \<Rightarrow> Some c | _ \<Rightarrow> None)"
| "first_choice _ = None"

definition delta :: "json \<Rightarrow> json option" where
  "delta f = Option.bind (first_choice f) (field ''delta'')"

definition delta_content :: "json \<Rightarrow> json option" where
  "delta_content f = Option.bind (delta f) (field ''content'')"

definition finish_reason :: "json \<Rightarrow> json option" where
  "finish_reason f = Option.bind (first_choice f) (field ''finish_reason'')"

definition is_terminal :: "json \<Rightarrow> bool" where
  "is_terminal f \<longleftrightarrow> delta f = Some (JObj []) \<and> finish_reason f = Some (JStr ''stop'')"

fun nonempty_string :: "json \<Rightarrow> bool" where
  "nonempty_string (JStr s) = (s \<noteq> [])"
| "nonempty_string _ = False"



subsection \<open>The translation as the specification words it\<close>



subsection \<open>Example sessions\<close>

text \<open>
  An agent that answers the calls of \<open>recv\<close> from a list, one second after each call,
  and closes the connection when the list is used up.
\<close>

fun script :: "recv_result list \<Rightarrow> nat \<Rightarrow> real \<times> recv_result" where
  "script [] n = (1, Raises ConnectionClosed)"
| "script (ev # evs) 0 = (1, ev)"
| "script (ev # evs) (Suc n) = script evs n"

definition example_runtime :: "recv_result list \<Rightarrow> runtime" where
  "example_runtime evs =
     \<lparr>connect_raises = None, send_raises = None, recv = script evs,
      time_now = (\<lambda>k. 1700000000 + int k), py_str = (\<lambda>v. ''?'')\<rparr>"

definition think :: "json \<Rightarrow> frame_text" where
  "think c = JsonText (JObj [(''observation'', JStr ''AgentThinkObservation''), (''content'', c)])"

definition cmd_run :: "string \<Rightarrow> frame_text" where
  "cmd_run c = JsonText (JObj [(''action'', JStr ''CmdRunAction''), (''args'', JObj [(''command'', JStr c)])])"

definition example_request :: ChatCompletionRequest where
  "example_request =
     \<lparr>model = ''gpt'',
      messages = [\<lparr>role = ''system'', content = ''be brief''\<rparr>, \<lparr>role = ''user'', content = ''hi''\<rparr>],
      stream = True\<rparr>"

section \<open>Properties\<close>

subsection \<open>Reading the two kinds of chunk\<close>

lemma delta_chunk: "delta (chunk t mdl c) = Some (JObj [(''content'', c)])"
  by (simp add: delta_def chunk_def)

lemma delta_content_chunk: "delta_content (chunk t mdl c) = Some c"
  by (simp add: delta_content_def delta_chunk)

lemma finish_reason_chunk: "finish_reason (chunk t mdl c) = Some JNull"
  by (simp add: finish_reason_def chunk_def)

lemma delta_done_chunk: "delta (done_chunk t mdl) = Some (JObj [])"
  by (simp add: delta_def done_chunk_def)

lemma finish_reason_done_chunk: "finish_reason (done_chunk t mdl) = Some (JStr ''stop'')"
  by (simp add: finish_reason_def done_chunk_def)

lemma is_terminal_done_chunk: "is_terminal (done_chunk t mdl)"
  by (simp add: is_terminal_def delta_done_chunk finish_reason_done_chunk)

lemma not_is_terminal_chunk: "\<not> is_terminal (chunk t mdl c)"
  by (simp add: is_terminal_def finish_reason_chunk)

subsection \<open>The translation of a dictionary\<close>

lemma tagged_dict:
  "tagged (JObj kvs) key kind = Inr (map_of kvs key = Some (JStr kind))"
  by (cases "map_of kvs key") (simp_all add: tagged_def)

lemma content_chunk_dict:
  "content_chunk rt (JObj kvs) =
     (if map_of kvs ''observation'' = Some (JStr ''AgentThinkObservation'')
      then py_getitem (JObj kvs) ''content''
      else if map_of kvs ''action'' = Some (JStr ''CmdRunAction'')
      then (case py_getitem (JObj kvs) ''args'' of
              Inl e \<Rightarrow> Inl e
            | Inr args \<Rightarrow>
                (case py_getitem args ''command'' of
                   Inl e \<Rightarrow> Inl e
                 | Inr c \<Rightarrow> Inr (JStr (running_command (py_format rt c)))))
      else Inr (JStr []))"
  unfolding content_chunk_def tagged_dict by simp

text \<open>A message that is not a dictionary either raises or gives no fragment.\<close>

lemma content_chunk_not_dict:
  assumes "\<forall>kvs. message \<noteq> JObj kvs" and "content_chunk rt message = Inr c"
  shows "c = JStr []"
  using assms
  by (cases message) (auto simp: content_chunk_def tagged_def split: if_splits sum.splits bool.splits)

lemma receive_delivered:
  "wait_for (recv rt n) 20 = Returns (JsonText message) \<Longrightarrow>
   receive rt n = content_chunk rt message"
  by (simp add: receive_def translate_def json_loads_def)

lemma receive_not_json:
  "wait_for (recv rt n) 20 = Returns NotJson \<Longrightarrow> receive rt n = Inl JSONDecodeError"
  by (simp add: receive_def translate_def json_loads_def)


subsection \<open>The receive loop\<close>

lemma receive_loop_stops:
  "receive rt n = Inl e \<Longrightarrow>
   receive_loop rt mdl n out =
     Some (out, Suc n, if e = TimeoutError \<or> e = ConnectionClosed then None else Some e)"
  by (subst receive_loop.simps) (simp add: iteration_def)

lemma receive_loop_continues:
  "receive rt n = Inr c \<Longrightarrow>
   receive_loop rt mdl n out = receive_loop rt mdl (Suc n) (yield_chunk rt mdl out c)"
  by (subst receive_loop.simps) (simp add: iteration_def)

text \<open>The loop returns as soon as some call of \<open>recv\<close> ends it.\<close>

lemma receive_loop_returns:
  "receive rt (n + d) = Inl e \<Longrightarrow> \<exists>res. receive_loop rt mdl n out = Some res"
proof (induction d arbitrary: n out)
  case 0
  then show ?case by (simp add: receive_loop_stops)
next
  case (Suc d)
  show ?case
  proof (cases "receive rt n")
    case (Inl e')
    then show ?thesis by (simp add: receive_loop_stops)
  next
    case (Inr c)
    from Suc.prems have "receive rt (Suc n + d) = Inl e" by simp
    from Suc.IH [OF this] show ?thesis by (simp add: receive_loop_continues [OF Inr])
  qed
qed

text \<open>
  A property of chunks that holds for the chunks yielded so far, and for the chunk of
  every fragment that is true, holds for all chunks of a loop that returns.
\<close>

lemma receive_loop_invariant_aux:
  assumes "receive_loop rt mdl n out = Some res"
  shows "(\<forall>f \<in> set out. P f) \<longrightarrow>
   (\<forall>i c t. receive rt i = Inr c \<longrightarrow> truthy c \<longrightarrow> P (chunk t mdl c)) \<longrightarrow>
   (\<forall>f \<in> set (fst res). P f)"
proof (rule receive_loop.raw_induct [where P = "\<lambda>rt mdl n out res. (\<forall>f \<in> set out. P f) \<longrightarrow>
   (\<forall>i c t. receive rt i = Inr c \<longrightarrow> truthy c \<longrightarrow> P (chunk t mdl c)) \<longrightarrow>
   (\<forall>f \<in> set (fst res). P f)", OF _ assms])
  fix loop :: "runtime \<Rightarrow> string \<Rightarrow> nat \<Rightarrow> json list \<Rightarrow> (json list \<times> nat \<times> exn option) option"
    and rt mdl n out res
  assume IH: "\<And>rt mdl n out res. loop rt mdl n out = Some res \<Longrightarrow>
     (\<forall>f \<in> set out. P f) \<longrightarrow>
     (\<forall>i c t. receive rt i = Inr c \<longrightarrow> truthy c \<longrightarrow> P (chunk t mdl c)) \<longrightarrow>
     (\<forall>f \<in> set (fst res). P f)"
  assume body: "(case iteration rt mdl n out of
        Inl e \<Rightarrow>
          (if e = TimeoutError then Some (out, Suc n, None)
           else if e = ConnectionClosed then Some (out, Suc n, None)
           else Some (out, Suc n, Some e))
      | Inr out' \<Rightarrow> loop rt mdl (Suc n) out') = Some res"
  show "(\<forall>f \<in> set out. P f) \<longrightarrow>
     (\<forall>i c t. receive rt i = Inr c \<longrightarrow> truthy c \<longrightarrow> P (chunk t mdl c)) \<longrightarrow>
     (\<forall>f \<in> set (fst res). P f)"
  proof (intro impI)
    assume out: "\<forall>f \<in> set out. P f"
      and step: "\<forall>i c t. receive rt i = Inr c \<longrightarrow> truthy c \<longrightarrow> P (chunk t mdl c)"
    show "\<forall>f \<in> set (fst res). P f"
    proof (cases "receive rt n")
      case (Inl e)
      with body have "fst res = out" by (auto simp: iteration_def split: if_splits)
      with out show ?thesis by simp
    next
      case (Inr c)
      with body have "loop rt mdl (Suc n) (yield_chunk rt mdl out c) = Some res"
        by (simp add: iteration_def)
      moreover have "\<forall>f \<in> set (yield_chunk rt mdl out c). P f"
      proof (cases "truthy c")
        case True
        with step Inr have "P (chunk (time_now rt (length out)) mdl c)" by blast
        with out True show ?thesis by (simp add: yield_chunk_def)
      next
        case False
        with out show ?thesis by (simp add: yield_chunk_def)
      qed
      ultimately show ?thesis using IH step by blast
    qed
  qed
qed

lemma receive_loop_invariant:
  assumes "receive_loop rt mdl n out = Some (out', k, e)"
    and "\<forall>f \<in> set out. P f"
    and "\<And>i c t. receive rt i = Inr c \<Longrightarrow> truthy c \<Longrightarrow> P (chunk t mdl c)"
  shows "\<forall>f \<in> set out'. P f"
  using receive_loop_invariant_aux [OF assms(1), of P] assms(2,3) by simp

text \<open>A loop that returns was ended by some call of \<open>recv\<close>.\<close>

lemma receive_loop_ends:
  assumes "receive_loop rt mdl n out = Some res"
  shows "\<exists>i \<ge> n. isl (receive rt i)"
proof (rule receive_loop.raw_induct [where P = "\<lambda>rt mdl n out res. \<exists>i \<ge> n. isl (receive rt i)", OF _ assms])
  fix loop :: "runtime \<Rightarrow> string \<Rightarrow> nat \<Rightarrow> json list \<Rightarrow> (json list \<times> nat \<times> exn option) option"
    and rt mdl n out res
  assume IH: "\<And>rt mdl n out res. loop rt mdl n out = Some res \<Longrightarrow> \<exists>i \<ge> n. isl (receive rt i)"
  assume body: "(case iteration rt mdl n out of
        Inl e \<Rightarrow>
          (if e = TimeoutError then Some (out, Suc n, None)
           else if e = ConnectionClosed then Some (out, Suc n, None)
           else Some (out, Suc n, Some e))
      | Inr out' \<Rightarrow> loop rt mdl (Suc n) out') = Some res"
  show "\<exists>i \<ge> n. isl (receive rt i)"
  proof (cases "receive rt n")
    case (Inl e)
    then have "n \<le> n \<and> isl (receive rt n)" by simp
    then show ?thesis by blast
  next
    case (Inr c)
    with body have "loop rt mdl (Suc n) (yield_chunk rt mdl out c) = Some res"
      by (simp add: iteration_def)
    from IH [OF this] obtain i where "Suc n \<le> i" "isl (receive rt i)" by blast
    then have "n \<le> i \<and> isl (receive rt i)" by simp
    then show ?thesis by blast
  qed
qed

text \<open>
  An agent that keeps sending well-formed messages in time keeps the loop running: the
  generator then never reaches its last chunk.
\<close>

lemma receive_loop_never_returns:
  "\<forall>i \<ge> n. \<not> isl (receive rt i) \<Longrightarrow> receive_loop rt mdl n out = None"
  using receive_loop_ends [of rt mdl n out] by (cases "receive_loop rt mdl n out") auto

text \<open>
  After \<open>k\<close> passes that did not leave it, the loop stands at the \<open>k\<close>-th call of
  \<open>recv\<close> with the chunks of these passes.
\<close>

lemma iterations_receive_loop:
  "iterations rt mdl k = Inr out \<Longrightarrow> receive_loop rt mdl 0 [] = receive_loop rt mdl k out"
proof (induction k arbitrary: out)
  case 0
  then show ?case by simp
next
  case (Suc k)
  from Suc.prems obtain out' where k: "iterations rt mdl k = Inr out'"
    and i: "iteration rt mdl k out' = Inr out"
    by (auto split: sum.splits)
  from Suc.IH [OF k] have "receive_loop rt mdl 0 [] = receive_loop rt mdl k out'" .
  also from i have "\<dots> = receive_loop rt mdl (Suc k) out"
    by (subst receive_loop.simps) simp
  finally show ?case .
qed

lemma iterations_invariant:
  assumes "iterations rt mdl k = Inr out"
    and "\<And>i c t. receive rt i = Inr c \<Longrightarrow> truthy c \<Longrightarrow> P (chunk t mdl c)"
  shows "\<forall>f \<in> set out. P f"
  using assms(1)
proof (induction k arbitrary: out)
  case 0
  then show ?case by simp
next
  case (Suc k)
  from Suc.prems obtain out' where k: "iterations rt mdl k = Inr out'"
    and i: "iteration rt mdl k out' = Inr out"
    by (auto split: sum.splits)
  from i obtain c where c: "receive rt k = Inr c" and out: "out = yield_chunk rt mdl out' c"
    by (auto simp: iteration_def split: sum.splits)
  from Suc.IH [OF k] have "\<forall>f \<in> set out'. P f" .
  with assms(2) [OF c] show ?case
    unfolding out by (auto simp: yield_chunk_def)
qed

subsection \<open>The generator as a whole\<close>

text \<open>The generator returns when the session fails to open or some \<open>recv\<close> ends the loop.\<close>

lemma stream_agent_responses_returns:
  assumes "connect_raises rt \<noteq> None \<or> send_raises rt \<noteq> None \<or> isl (receive rt n)"
  shows "\<exists>r. stream_agent_responses rt request = Some r"
proof (cases "snd (open_session rt (user_message (messages request)))")
  case (Some e)
  then show ?thesis
    by (cases "open_session rt (user_message (messages request))")
       (simp add: stream_agent_responses_def)
next
  case None
  then have "connect_raises rt = None" "send_raises rt = None"
    by (auto simp: open_session_def split: option.splits)
  with assms obtain e where "receive rt (0 + n) = Inl e" by (cases "receive rt n") auto
  from receive_loop_returns [OF this] obtain res
    where "receive_loop rt (model request) 0 [] = Some res" by blast
  with None show ?thesis
    by (cases "open_session rt (user_message (messages request))"; cases res)
       (simp add: stream_agent_responses_def)
qed

text \<open>
  What it yields is a run of content chunks, each made from a fragment that is true,
  and then the final chunk.
\<close>

lemma stream_agent_responses_yielded:
  assumes "stream_agent_responses rt request = Some r"
  shows "\<exists>out. yielded r = out @ [done_chunk (time_now rt (length out)) (model request)]
           \<and> (\<forall>f \<in> set out. \<exists>i c t. receive rt i = Inr c \<and> truthy c \<and> f = chunk t (model request) c)"
proof (cases "snd (open_session rt (user_message (messages request)))")
  case (Some e)
  with assms have "yielded r = [] @ [done_chunk (time_now rt (length ([] :: json list))) (model request)]"
    by (cases "open_session rt (user_message (messages request))")
       (auto simp: stream_agent_responses_def finish_def)
  then show ?thesis by (intro exI [of _ "[]"]) simp
next
  case None
  with assms obtain out k e where loop: "receive_loop rt (model request) 0 [] = Some (out, k, e)"
    and r: "yielded r = out @ [done_chunk (time_now rt (length out)) (model request)]"
    by (cases "open_session rt (user_message (messages request))")
       (auto simp: stream_agent_responses_def finish_def split: option.splits)
  have "\<forall>f \<in> set out. \<exists>i c t. receive rt i = Inr c \<and> truthy c \<and> f = chunk t (model request) c"
    by (rule receive_loop_invariant [OF loop]) auto
  with r show ?thesis by blast
qed

lemma one_terminal:
  assumes "\<forall>f \<in> set out. \<not> is_terminal f" and "is_terminal d"
  shows "length (filter is_terminal (out @ [d])) = 1"
proof -
  from assms(1) have "filter is_terminal out = []" by (simp add: filter_empty_conv)
  with assms(2) show ?thesis by simp
qed

text \<open>The definitions that a run on a given session unfolds.\<close>

lemmas run_simps = receive_loop.simps iteration_def receive_def wait_for_def translate_def json_loads_def
  content_chunk_dict yield_chunk_def example_runtime_def think_def cmd_run_def
  stream_agent_responses_def open_session_def leave_def finish_def example_request_def
  chat_completions_def running_command_def py_format_def

section \<open>The claims\<close>

subsection \<open>The terminal chunk (C1)\<close>

text \<open>
  C1. For a request with \<open>stream = true\<close> whose session ends (the connection or the
  send fails, or some \<open>recv\<close> times out, finds the connection closed, raises, or
  delivers a message that raises), the response is the stream of the generator's
  chunks; exactly one of them is terminal (\<open>delta = {}\<close>,
  \<open>finish_reason = "stop"\<close>) and it is the last one.
\<close>

theorem terminal_chunk_once_and_last:
  assumes "stream request"
    and "connect_raises rt \<noteq> None \<or> send_raises rt \<noteq> None \<or> isl (receive rt n)"
  shows "\<exists>fs ops. chat_completions rt request = Some (StreamingResponse fs ''text/event-stream'', ops)
           \<and> fs \<noteq> [] \<and> is_terminal (last fs) \<and> length (filter is_terminal fs) = 1"
proof -
  from stream_agent_responses_returns [OF assms(2)] obtain r
    where r: "stream_agent_responses rt request = Some r" by blast
  from stream_agent_responses_yielded [OF r] obtain out
    where fs: "yielded r = out @ [done_chunk (time_now rt (length out)) (model request)]"
      and out: "\<forall>f \<in> set out. \<exists>i c t. receive rt i = Inr c \<and> truthy c \<and> f = chunk t (model request) c"
    by blast
  from out have "\<forall>f \<in> set out. \<not> is_terminal f"
    by (auto simp: not_is_terminal_chunk)
  then have "length (filter is_terminal (yielded r)) = 1"
    unfolding fs by (rule one_terminal) (rule is_terminal_done_chunk)
  moreover have "is_terminal (last (yielded r))" "yielded r \<noteq> []"
    unfolding fs by (simp_all add: is_terminal_done_chunk)
  moreover from assms(1) r
  have "chat_completions rt request = Some (StreamingResponse (yielded r) ''text/event-stream'', channel r)"
    by (simp add: chat_completions_def)
  ultimately show ?thesis by blast
qed

theorem terminal_chunk_once_and_last_witness:
  "stream example_request
   \<and> isl (receive (example_runtime [Returns (think (JStr ''thinking...'')), Raises TimeoutError]) 1)
   \<and> (\<exists>fs ops. chat_completions (example_runtime [Returns (think (JStr ''thinking...'')), Raises TimeoutError])
          example_request = Some (StreamingResponse fs ''text/event-stream'', ops)
        \<and> fs \<noteq> [] \<and> is_terminal (last fs) \<and> length (filter is_terminal fs) = 1)"
proof -
  have s: "stream example_request" by (simp add: example_request_def)
  have e: "isl (receive (example_runtime [Returns (think (JStr ''thinking...'')), Raises TimeoutError]) 1)"
    by (simp add: receive_def wait_for_def example_runtime_def)
  from s e terminal_chunk_once_and_last [OF s, of "example_runtime [Returns (think (JStr ''thinking...'')), Raises TimeoutError]" 1]
  show ?thesis by blast
qed

subsection \<open>Ending and skipping (C2)\<close>

text \<open>
  Where C2 as written fails. Text that is not JSON raises in \<open>json.loads\<close>, and
  an AgentThinkObservation without a content field raises \<open>KeyError\<close>; neither
  exception is one of the two that the inner \<open>try\<close> handles, so the loop is left
  after this one call of \<open>recv\<close>. The message that follows is never received and
  only the final chunk is yielded.
\<close>

theorem malformed_message_counterexample:
  "stream_agent_responses (example_runtime [Returns NotJson, Returns (think (JStr ''hi''))]) example_request =
     Some \<lparr>yielded = [done_chunk 1700000000 ''gpt''],
           channel = [Connect uri, Send (envelope ''hi''), Close],
           recv_calls = 1, caught = Some JSONDecodeError\<rparr>
   \<and> stream_agent_responses
         (example_runtime [Returns (JsonText (JObj [(''observation'', JStr ''AgentThinkObservation'')])),
                           Returns (think (JStr ''hi''))]) example_request =
     Some \<lparr>yielded = [done_chunk 1700000000 ''gpt''],
           channel = [Connect uri, Send (envelope ''hi''), Close],
           recv_calls = 1, caught = Some KeyError\<rparr>"
  by (simp add: run_simps)

text \<open>
  C2, amended. A message that is not JSON, and a message tagged AgentThinkObservation
  that has no content field, end the receive loop: nothing is yielded for it, no
  further message is received, and the exception goes to the outer handler (after which
  the final chunk follows, see C1). A dictionary that carries neither of the two tags
  is skipped: nothing is yielded and the next message is received.
\<close>

theorem malformed_ends_other_kind_skipped:
  "(wait_for (recv rt n) 20 = Returns NotJson \<longrightarrow>
      receive_loop rt mdl n out = Some (out, Suc n, Some JSONDecodeError))
   \<and> (wait_for (recv rt n) 20 = Returns (JsonText (JObj kvs))
        \<and> map_of kvs ''observation'' = Some (JStr ''AgentThinkObservation'')
        \<and> map_of kvs ''content'' = None \<longrightarrow>
      receive_loop rt mdl n out = Some (out, Suc n, Some KeyError))
   \<and> (wait_for (recv rt n) 20 = Returns (JsonText (JObj kvs))
        \<and> map_of kvs ''observation'' \<noteq> Some (JStr ''AgentThinkObservation'')
        \<and> map_of kvs ''action'' \<noteq> Some (JStr ''CmdRunAction'') \<longrightarrow>
      iteration rt mdl n out = Inr out
      \<and> receive_loop rt mdl n out = receive_loop rt mdl (Suc n) out)"
proof (intro conjI impI)
  assume "wait_for (recv rt n) 20 = Returns NotJson"
  then have "receive rt n = Inl JSONDecodeError" by (rule receive_not_json)
  then show "receive_loop rt mdl n out = Some (out, Suc n, Some JSONDecodeError)"
    by (simp add: receive_loop_stops)
next
  assume "wait_for (recv rt n) 20 = Returns (JsonText (JObj kvs))
        \<and> map_of kvs ''observation'' = Some (JStr ''AgentThinkObservation'')
        \<and> map_of kvs ''content'' = None"
  then have "receive rt n = Inl KeyError"
    by (simp add: receive_delivered content_chunk_dict)
  then show "receive_loop rt mdl n out = Some (out, Suc n, Some KeyError)"
    by (simp add: receive_loop_stops)
next
  assume "wait_for (recv rt n) 20 = Returns (JsonText (JObj kvs))
        \<and> map_of kvs ''observation'' \<noteq> Some (JStr ''AgentThinkObservation'')
        \<and> map_of kvs ''action'' \<noteq> Some (JStr ''CmdRunAction'')"
  then have r: "receive rt n = Inr (JStr [])"
    by (simp add: receive_delivered content_chunk_dict)
  then show "iteration rt mdl n out = Inr out"
    by (simp add: iteration_def yield_chunk_def)
  from r show "receive_loop rt mdl n out = receive_loop rt mdl (Suc n) out"
    by (simp add: receive_loop_continues yield_chunk_def)
qed

theorem malformed_ends_other_kind_skipped_witness:
  "wait_for (recv (example_runtime [Returns NotJson, Returns (think (JStr ''hi''))]) 0) 20 = Returns NotJson
   \<and> receive_loop (example_runtime [Returns NotJson, Returns (think (JStr ''hi''))]) ''gpt'' 0 [] =
       Some ([], Suc 0, Some JSONDecodeError)
   \<and> wait_for (recv (example_runtime [Returns (JsonText (JObj [(''observation'', JStr ''AgentThinkObservation'')]))]) 0) 20 =
       Returns (JsonText (JObj [(''observation'', JStr ''AgentThinkObservation'')]))
   \<and> receive_loop (example_runtime [Returns (JsonText (JObj [(''observation'', JStr ''AgentThinkObservation'')]))]) ''gpt'' 0 [] =
       Some ([], Suc 0, Some KeyError)
   \<and> wait_for (recv (example_runtime [Returns (JsonText (JObj [(''observation'', JStr ''NullObservation''), (''content'', JStr [])]))]) 0) 20 =
       Returns (JsonText (JObj [(''observation'', JStr ''NullObservation''), (''content'', JStr [])]))
   \<and> iteration (example_runtime [Returns (JsonText (JObj [(''observation'', JStr ''NullObservation''), (''content'', JStr [])]))]) ''gpt'' 0 [] =
       Inr []"
proof -
  let ?a = "example_runtime [Returns NotJson, Returns (think (JStr ''hi''))]"
  let ?kb = "[(''observation'', JStr ''AgentThinkObservation'')]"
  let ?b = "example_runtime [Returns (JsonText (JObj ?kb))]"
  let ?kc = "[(''observation'', JStr ''NullObservation''), (''content'', JStr [])]"
  let ?c = "example_runtime [Returns (JsonText (JObj ?kc))]"
  have a: "wait_for (recv ?a 0) 20 = Returns NotJson"
    by (simp add: wait_for_def example_runtime_def)
  have b: "wait_for (recv ?b 0) 20 = Returns (JsonText (JObj ?kb))"
    by (simp add: wait_for_def example_runtime_def)
  have c: "wait_for (recv ?c 0) 20 = Returns (JsonText (JObj ?kc))"
    by (simp add: wait_for_def example_runtime_def)
  from a malformed_ends_other_kind_skipped [of ?a 0 "''gpt''" "[]"]
  have "receive_loop ?a ''gpt'' 0 [] = Some ([], Suc 0, Some JSONDecodeError)" by blast
  moreover from b malformed_ends_other_kind_skipped [of ?b 0 "''gpt''" "[]" ?kb]
  have "receive_loop ?b ''gpt'' 0 [] = Some ([], Suc 0, Some KeyError)" by simp
  moreover from c malformed_ends_other_kind_skipped [of ?c 0 "''gpt''" "[]" ?kc]
  have "iteration ?c ''gpt'' 0 [] = Inr []" by simp
  ultimately show ?thesis using a b c by simp
qed

subsection \<open>The forwarded content (C3)\<close>

lemma user_message_find:
  "user_message ms = (case find (\<lambda>m. role m = ''user'') ms of None \<Rightarrow> [] | Some m \<Rightarrow> content m)"
  by (induction ms) simp_all

text \<open>
  C3. The content that is searched for is that of the first message, in the given
  order, whose role is \<open>user\<close>, and the empty string when there is none. The
  generator always begins by connecting to the session, and once connected it sends the
  envelope whose \<open>data.args.content\<close> is that content; the calls on the channel of
  a finished run are these, followed by the close.
\<close>

theorem forwarded_user_message:
  "user_message (messages request) =
     (case find (\<lambda>m. role m = ''user'') (messages request) of None \<Rightarrow> [] | Some m \<Rightarrow> content m)
   \<and> hd (fst (open_session rt (user_message (messages request)))) =
       Connect ''ws://localhost:3000/ws?conversation_id=test-conversation''
   \<and> (connect_raises rt = None \<longrightarrow>
        fst (open_session rt (user_message (messages request))) =
          [Connect ''ws://localhost:3000/ws?conversation_id=test-conversation'',
           Send (JObj [(''action'', JStr ''oh_user_action''),
                       (''data'', JObj [(''action'', JStr ''MessageAction''),
                                        (''args'', JObj [(''content'',
                                             JStr (case find (\<lambda>m. role m = ''user'') (messages request) of
                                                     None \<Rightarrow> [] | Some m \<Rightarrow> content m)),
                                           (''source'', JStr ''user'')])])])])
   \<and> (\<forall>r. stream_agent_responses rt request = Some r \<longrightarrow>
          channel r = leave rt (fst (open_session rt (user_message (messages request)))))"
proof (intro conjI impI allI)
  show "user_message (messages request) =
     (case find (\<lambda>m. role m = ''user'') (messages request) of None \<Rightarrow> [] | Some m \<Rightarrow> content m)"
    by (rule user_message_find)
  show "hd (fst (open_session rt (user_message (messages request)))) =
       Connect ''ws://localhost:3000/ws?conversation_id=test-conversation''"
    by (simp add: open_session_def uri_def split: option.splits)
next
  assume "connect_raises rt = None"
  then show "fst (open_session rt (user_message (messages request))) =
          [Connect ''ws://localhost:3000/ws?conversation_id=test-conversation'',
           Send (JObj [(''action'', JStr ''oh_user_action''),
                       (''data'', JObj [(''action'', JStr ''MessageAction''),
                                        (''args'', JObj [(''content'',
                                             JStr (case find (\<lambda>m. role m = ''user'') (messages request) of
                                                     None \<Rightarrow> [] | Some m \<Rightarrow> content m)),
                                           (''source'', JStr ''user'')])])])]"
    by (simp add: open_session_def uri_def envelope_def message_action_def user_message_find)
next
  fix r
  assume "stream_agent_responses rt request = Some r"
  then show "channel r = leave rt (fst (open_session rt (user_message (messages request))))"
    by (cases "open_session rt (user_message (messages request))")
       (auto simp: stream_agent_responses_def finish_def split: option.splits)
qed

theorem forwarded_user_message_witness:
  "connect_raises (example_runtime [Raises TimeoutError]) = None
   \<and> user_message (messages example_request) = ''hi''
   \<and> fst (open_session (example_runtime [Raises TimeoutError]) (user_message (messages example_request))) =
       [Connect ''ws://localhost:3000/ws?conversation_id=test-conversation'',
        Send (JObj [(''action'', JStr ''oh_user_action''),
                    (''data'', JObj [(''action'', JStr ''MessageAction''),
                                     (''args'', JObj [(''content'', JStr ''hi''), (''source'', JStr ''user'')])])])]
   \<and> fst (open_session (example_runtime [Raises TimeoutError])
             (user_message (messages (example_request\<lparr>messages := [\<lparr>role = ''system'', content = ''be brief''\<rparr>]\<rparr>)))) =
       [Connect ''ws://localhost:3000/ws?conversation_id=test-conversation'',
        Send (JObj [(''action'', JStr ''oh_user_action''),
                    (''data'', JObj [(''action'', JStr ''MessageAction''),
                                     (''args'', JObj [(''content'', JStr []), (''source'', JStr ''user'')])])])]
   \<and> map_option channel (stream_agent_responses (example_runtime [Raises TimeoutError]) example_request) =
       Some (leave (example_runtime [Raises TimeoutError])
          (fst (open_session (example_runtime [Raises TimeoutError]) (user_message (messages example_request)))))"
proof -
  let ?rt = "example_runtime [Raises TimeoutError]"
  let ?q = "example_request\<lparr>messages := [\<lparr>role = ''system'', content = ''be brief''\<rparr>]\<rparr>"
  have c: "connect_raises ?rt = None" by (simp add: example_runtime_def)
  have r: "stream_agent_responses ?rt example_request =
     Some \<lparr>yielded = [done_chunk 1700000000 ''gpt''],
           channel = [Connect uri, Send (envelope ''hi''), Close],
           recv_calls = 1, caught = None\<rparr>"
    by (simp add: run_simps)
  from forwarded_user_message [of example_request ?rt] c r
  have "map_option channel (stream_agent_responses ?rt example_request) =
       Some (leave ?rt (fst (open_session ?rt (user_message (messages example_request)))))"
    by simp
  moreover from forwarded_user_message [of example_request ?rt] c
  have "user_message (messages example_request) = ''hi''"
    and "fst (open_session ?rt (user_message (messages example_request))) =
       [Connect ''ws://localhost:3000/ws?conversation_id=test-conversation'',
        Send (JObj [(''action'', JStr ''oh_user_action''),
                    (''data'', JObj [(''action'', JStr ''MessageAction''),
                                     (''args'', JObj [(''content'', JStr ''hi''), (''source'', JStr ''user'')])])])]"
    by (simp_all add: example_request_def)
  moreover from forwarded_user_message [of ?q ?rt] c
  have "fst (open_session ?rt (user_message (messages ?q))) =
       [Connect ''ws://localhost:3000/ws?conversation_id=test-conversation'',
        Send (JObj [(''action'', JStr ''oh_user_action''),
                    (''data'', JObj [(''action'', JStr ''MessageAction''),
                                     (''args'', JObj [(''content'', JStr []), (''source'', JStr ''user'')])])])]"
    by (simp add: example_request_def)
  ultimately show ?thesis using c by simp
qed

subsection \<open>The command fragment (C4)\<close>

text \<open>
  C4. A message of kind CmdRunAction (a dictionary whose action is CmdRunAction, and
  which the first test has not already taken as an AgentThinkObservation, see C10) with
  the command text \<open>c\<close> gives the fragment that is two newlines,
  \<open>Running command:\<close>, the fenced bash block around \<open>c\<close> and two newlines;
  the pass through the loop that receives it yields one chunk whose
  \<open>delta.content\<close> is that string, and does not leave the loop.
\<close>

theorem cmd_run_fragment:
  assumes "wait_for (recv rt n) 20 = Returns (JsonText (JObj kvs))"
    and "map_of kvs ''observation'' \<noteq> Some (JStr ''AgentThinkObservation'')"
    and "map_of kvs ''action'' = Some (JStr ''CmdRunAction'')"
    and "map_of kvs ''args'' = Some (JObj args)"
    and "map_of args ''command'' = Some (JStr c)"
  shows "receive rt n =
           Inr (JStr (''\<newline>\<newline>Running command:\<newline>```bash\<newline>'' @ c @ ''\<newline>```\<newline>\<newline>''))
         \<and> iteration rt mdl n out =
             Inr (out @ [chunk (time_now rt (length out)) mdl
                    (JStr (''\<newline>\<newline>Running command:\<newline>```bash\<newline>'' @ c @ ''\<newline>```\<newline>\<newline>''))])
         \<and> delta_content (chunk (time_now rt (length out)) mdl
               (JStr (''\<newline>\<newline>Running command:\<newline>```bash\<newline>'' @ c @ ''\<newline>```\<newline>\<newline>''))) =
             Some (JStr (''\<newline>\<newline>Running command:\<newline>```bash\<newline>'' @ c @ ''\<newline>```\<newline>\<newline>''))"
proof -
  from assms have r: "receive rt n =
      Inr (JStr (''\<newline>\<newline>Running command:\<newline>```bash\<newline>'' @ c @ ''\<newline>```\<newline>\<newline>''))"
    by (simp add: receive_delivered content_chunk_dict running_command_def py_format_def)
  then show ?thesis
    by (simp add: iteration_def yield_chunk_def delta_content_chunk)
qed

theorem cmd_run_fragment_witness:
  "wait_for (recv (example_runtime [Returns (cmd_run ''ls -la'')]) 0) 20 =
     Returns (JsonText (JObj [(''action'', JStr ''CmdRunAction''), (''args'', JObj [(''command'', JStr ''ls -la'')])]))
   \<and> receive (example_runtime [Returns (cmd_run ''ls -la'')]) 0 =
       Inr (JStr ''\<newline>\<newline>Running command:\<newline>```bash\<newline>ls -la\<newline>```\<newline>\<newline>'')
   \<and> iteration (example_runtime [Returns (cmd_run ''ls -la'')]) ''gpt'' 0 [] =
       Inr [chunk 1700000000 ''gpt'' (JStr ''\<newline>\<newline>Running command:\<newline>```bash\<newline>ls -la\<newline>```\<newline>\<newline>'')]"
proof -
  let ?rt = "example_runtime [Returns (cmd_run ''ls -la'')]"
  let ?args = "[(''command'', JStr ''ls -la'')]"
  let ?kvs = "[(''action'', JStr ''CmdRunAction''), (''args'', JObj ?args)]"
  have d: "wait_for (recv ?rt 0) 20 = Returns (JsonText (JObj ?kvs))"
    by (simp add: wait_for_def example_runtime_def cmd_run_def)
  have t: "time_now ?rt (length ([] :: json list)) = 1700000000"
    by (simp add: example_runtime_def)
  from cmd_run_fragment [OF d, of ?args "''ls -la''" "''gpt''" "[]"] d t
  show ?thesis by simp
qed

subsection \<open>The observation fragment (C5)\<close>

text \<open>
  Where C5 as written fails: an AgentThinkObservation whose content is the empty
  string yields nothing, because \<open>if content_chunk:\<close> is false for it. The run
  below receives such a message, then finds the connection closed, and yields the final
  chunk alone.
\<close>

theorem empty_content_counterexample:
  "stream_agent_responses (example_runtime [Returns (think (JStr []))]) example_request =
     Some \<lparr>yielded = [done_chunk 1700000000 ''gpt''],
           channel = [Connect uri, Send (envelope ''hi''), Close],
           recv_calls = 2, caught = None\<rparr>"
  by (simp add: run_simps)

text \<open>
  C5, amended. An AgentThinkObservation whose content is the string \<open>s\<close> gives
  \<open>s\<close> itself as the fragment. When \<open>s\<close> is not empty the pass through the
  loop that receives it yields one chunk whose \<open>delta.content\<close> is \<open>s\<close>,
  unchanged; when \<open>s\<close> is empty it yields nothing. In both cases the loop goes on.
\<close>

theorem think_fragment:
  assumes "wait_for (recv rt n) 20 = Returns (JsonText (JObj kvs))"
    and "map_of kvs ''observation'' = Some (JStr ''AgentThinkObservation'')"
    and "map_of kvs ''content'' = Some (JStr s)"
  shows "receive rt n = Inr (JStr s)
         \<and> iteration rt mdl n out =
             Inr (if s = [] then out else out @ [chunk (time_now rt (length out)) mdl (JStr s)])
         \<and> delta_content (chunk (time_now rt (length out)) mdl (JStr s)) = Some (JStr s)"
proof -
  from assms have r: "receive rt n = Inr (JStr s)"
    by (simp add: receive_delivered content_chunk_dict)
  then show ?thesis
    by (simp add: iteration_def yield_chunk_def delta_content_chunk)
qed

theorem think_fragment_witness:
  "wait_for (recv (example_runtime [Returns (think (JStr ''thinking...''))]) 0) 20 =
     Returns (JsonText (JObj [(''observation'', JStr ''AgentThinkObservation''), (''content'', JStr ''thinking...'')]))
   \<and> receive (example_runtime [Returns (think (JStr ''thinking...''))]) 0 = Inr (JStr ''thinking...'')
   \<and> iteration (example_runtime [Returns (think (JStr ''thinking...''))]) ''gpt'' 0 [] =
       Inr [chunk 1700000000 ''gpt'' (JStr ''thinking...'')]
   \<and> delta_content (chunk 1700000000 ''gpt'' (JStr ''thinking...'')) = Some (JStr ''thinking...'')"
proof -
  let ?rt = "example_runtime [Returns (think (JStr ''thinking...''))]"
  let ?kvs = "[(''observation'', JStr ''AgentThinkObservation''), (''content'', JStr ''thinking...'')]"
  have d: "wait_for (recv ?rt 0) 20 = Returns (JsonText (JObj ?kvs))"
    by (simp add: wait_for_def example_runtime_def think_def)
  have t: "time_now ?rt (length ([] :: json list)) = 1700000000"
    by (simp add: example_runtime_def)
  from think_fragment [OF d, of "''thinking...''" "''gpt''" "[]"] d t
  show ?thesis by simp
qed

subsection \<open>Requests that do not stream (C6)\<close>

text \<open>
  C6. A request with \<open>stream = false\<close> is answered with the fixed body
  \<open>{"error": "Non-streaming not implemented yet"}\<close>; the answer is not a stream and
  no call is made on a session channel.
\<close>

theorem non_streaming_not_implemented:
  "\<not> stream request \<Longrightarrow>
   chat_completions rt request =
     Some (JsonBody (JObj [(''error'', JStr ''Non-streaming not implemented yet'')]), [])"
  by (simp add: chat_completions_def)

theorem non_streaming_not_implemented_witness:
  "\<not> stream (example_request\<lparr>stream := False\<rparr>)
   \<and> chat_completions (example_runtime []) (example_request\<lparr>stream := False\<rparr>) =
       Some (JsonBody (JObj [(''error'', JStr ''Non-streaming not implemented yet'')]), [])"
  using non_streaming_not_implemented [of "example_request\<lparr>stream := False\<rparr>" "example_runtime []"]
  by simp

subsection \<open>No session, or no message in time (C7)\<close>



subsection \<open>The chunks of a whole session (C8)\<close>










subsection \<open>The content chunks (C9)\<close>

lemma receive_fragment_origin:
  assumes "receive rt n = Inr c" and "truthy c"
  shows "nonempty_string c
         \<or> (\<exists>kvs. wait_for (recv rt n) 20 = Returns (JsonText (JObj kvs))
               \<and> map_of kvs ''observation'' = Some (JStr ''AgentThinkObservation'')
               \<and> map_of kvs ''content'' = Some c)"
proof -
  from assms(1) obtain message where d: "wait_for (recv rt n) 20 = Returns (JsonText message)"
    and c: "content_chunk rt message = Inr c"
    by (auto simp: receive_def translate_def json_loads_def split: recv_result.splits frame_text.splits)
  show ?thesis
  proof (cases "\<exists>kvs. message = JObj kvs")
    case False
    with c have "c = JStr []" by (auto dest: content_chunk_not_dict)
    with assms(2) show ?thesis by simp
  next
    case True
    then obtain kvs where m: "message = JObj kvs" by blast
    show ?thesis
    proof (cases "map_of kvs ''observation'' = Some (JStr ''AgentThinkObservation'')")
      case True
      with c m have "map_of kvs ''content'' = Some c"
        by (simp add: content_chunk_dict split: option.splits)
      with d m True show ?thesis by blast
    next
      case False
      with c m assms(2) have "nonempty_string c"
        by (auto simp: content_chunk_dict running_command_def split: if_splits sum.splits)
      then show ?thesis by simp
    qed
  qed
qed

text \<open>
  Where C9 as written fails: the content field of an AgentThinkObservation is passed
  on whatever its JSON type. For the content \<open>5\<close> the chunk that is yielded has
  \<open>delta.content = 5\<close>, which is not a string.
\<close>

theorem number_content_counterexample:
  "stream_agent_responses (example_runtime [Returns (think (JInt 5))]) example_request =
     Some \<lparr>yielded = [chunk 1700000000 ''gpt'' (JInt 5), done_chunk 1700000001 ''gpt''],
           channel = [Connect uri, Send (envelope ''hi''), Close],
           recv_calls = 2, caught = None\<rparr>
   \<and> \<not> is_terminal (chunk 1700000000 ''gpt'' (JInt 5))
   \<and> delta_content (chunk 1700000000 ''gpt'' (JInt 5)) = Some (JInt 5)
   \<and> \<not> nonempty_string (JInt 5)"
  by (simp add: run_simps not_is_terminal_chunk delta_content_chunk)

text \<open>
  C9, amended. Every chunk that is not terminal has \<open>finish_reason = null\<close> and a
  \<open>delta\<close> that holds exactly a content which is true: a string that is not empty,
  or else the content field of a received AgentThinkObservation as it came. This holds
  for the chunks of a run that has returned and for the chunks yielded by any number of
  passes through the loop of a run that has not.
\<close>

theorem content_chunks_null_finish_true_content:
  assumes "(stream_agent_responses rt request = Some r \<and> f \<in> set (yielded r) \<and> \<not> is_terminal f)
           \<or> (iterations rt (model request) k = Inr out \<and> f \<in> set out)"
  shows "finish_reason f = Some JNull
         \<and> (\<exists>c. delta f = Some (JObj [(''content'', c)]) \<and> truthy c
              \<and> (nonempty_string c
                 \<or> (\<exists>n kvs. wait_for (recv rt n) 20 = Returns (JsonText (JObj kvs))
                       \<and> map_of kvs ''observation'' = Some (JStr ''AgentThinkObservation'')
                       \<and> map_of kvs ''content'' = Some c)))"
proof -
  have "\<exists>i c t. receive rt i = Inr c \<and> truthy c \<and> f = chunk t (model request) c"
    using assms
  proof (elim disjE conjE)
    assume r: "stream_agent_responses rt request = Some r"
      and f: "f \<in> set (yielded r)" "\<not> is_terminal f"
    from stream_agent_responses_yielded [OF r] obtain ys
      where fs: "yielded r = ys @ [done_chunk (time_now rt (length ys)) (model request)]"
        and ys: "\<forall>f \<in> set ys. \<exists>i c t. receive rt i = Inr c \<and> truthy c \<and> f = chunk t (model request) c"
      by blast
    from f fs have "f \<in> set ys" by (auto simp: is_terminal_done_chunk)
    with ys show ?thesis by blast
  next
    assume k: "iterations rt (model request) k = Inr out" and f: "f \<in> set out"
    have "\<forall>f \<in> set out. \<exists>i c t. receive rt i = Inr c \<and> truthy c \<and> f = chunk t (model request) c"
      by (rule iterations_invariant [OF k]) blast
    with f show ?thesis by blast
  qed
  then obtain i c t where c: "receive rt i = Inr c" "truthy c" and f: "f = chunk t (model request) c"
    by blast
  from receive_fragment_origin [OF c]
  have "nonempty_string c
         \<or> (\<exists>n kvs. wait_for (recv rt n) 20 = Returns (JsonText (JObj kvs))
               \<and> map_of kvs ''observation'' = Some (JStr ''AgentThinkObservation'')
               \<and> map_of kvs ''content'' = Some c)"
    by blast
  with c(2) show ?thesis unfolding f by (simp add: finish_reason_chunk delta_chunk)
qed

theorem content_chunks_null_finish_true_content_witness:
  "stream_agent_responses (example_runtime [Returns (think (JStr ''thinking...'')), Returns (think (JInt 5))]) example_request =
     Some \<lparr>yielded = [chunk 1700000000 ''gpt'' (JStr ''thinking...''), chunk 1700000001 ''gpt'' (JInt 5),
                      done_chunk 1700000002 ''gpt''],
           channel = [Connect uri, Send (envelope ''hi''), Close],
           recv_calls = 3, caught = None\<rparr>
   \<and> \<not> is_terminal (chunk 1700000000 ''gpt'' (JStr ''thinking...''))
   \<and> finish_reason (chunk 1700000000 ''gpt'' (JStr ''thinking...'')) = Some JNull
   \<and> (\<exists>c. delta (chunk 1700000000 ''gpt'' (JStr ''thinking...'')) = Some (JObj [(''content'', c)]) \<and> truthy c)"
proof -
  let ?rt = "example_runtime [Returns (think (JStr ''thinking...'')), Returns (think (JInt 5))]"
  let ?r = "\<lparr>yielded = [chunk 1700000000 ''gpt'' (JStr ''thinking...''), chunk 1700000001 ''gpt'' (JInt 5),
                      done_chunk 1700000002 ''gpt''],
           channel = [Connect uri, Send (envelope ''hi''), Close],
           recv_calls = 3, caught = None\<rparr>"
  have r: "stream_agent_responses ?rt example_request = Some ?r"
    by (simp add: run_simps)
  have m: "chunk 1700000000 ''gpt'' (JStr ''thinking...'') \<in> set (yielded ?r)" by simp
  have n: "\<not> is_terminal (chunk 1700000000 ''gpt'' (JStr ''thinking...''))"
    by (rule not_is_terminal_chunk)
  from r m n
  have "(stream_agent_responses ?rt example_request = Some ?r
           \<and> chunk 1700000000 ''gpt'' (JStr ''thinking...'') \<in> set (yielded ?r)
           \<and> \<not> is_terminal (chunk 1700000000 ''gpt'' (JStr ''thinking...'')))
         \<or> (iterations ?rt (model example_request) 0 = Inr []
             \<and> chunk 1700000000 ''gpt'' (JStr ''thinking...'') \<in> set [])"
    by blast
  from content_chunks_null_finish_true_content [OF this] r n
  show ?thesis by blast
qed

subsection \<open>Both tags (C10)\<close>



end
